theory Spec2Isabelle
  imports Complex_Main "HOL-Library.Log_Nat"
begin

section \<open>Python values used by the grader\<close>

text \<open>
  The grader of \<^verbatim>\<open>src/domains/math_reasoning\<close> works on Python strings. A string is
  modelled as a \<^typ>\<open>string\<close> whose characters are the code points 0 to 255, so the
  character classes below are Python's on that range. An exception is a value: a call
  either returns (\<open>Ok\<close>), raises (\<open>Raise\<close>) or does not come back (\<open>Hang\<close>, which
  only a call into the symbolic library or an unbounded loop can produce).
\<close>

datatype exn =
  ValueError | IndexError | AssertionError | OverflowError | TypeError
  | UnboundLocalError | LibraryError

datatype 'a res = Ok 'a | Raise exn | Hang

abbreviation (input) bslash :: char where
  "bslash \<equiv> CHR 0x5C"

abbreviation (input) newline :: char where
  "newline \<equiv> CHR 0x0A"

text \<open>\<^verbatim>\<open>str.isspace\<close> on one character, as \<^verbatim>\<open>str.strip()\<close> uses it.\<close>

definition py_isspace :: "char \<Rightarrow> bool" where
  "py_isspace c \<longleftrightarrow>
     c \<in> set [CHR 0x09, CHR 0x0A, CHR 0x0B, CHR 0x0C, CHR 0x0D, CHR 0x1C, CHR 0x1D,
               CHR 0x1E, CHR 0x1F, CHR 0x20, CHR 0x85, CHR 0xA0]"

text \<open>The characters \<^verbatim>\<open>[0-9]\<close>; \<^verbatim>\<open>\d\<close> matches no other character below 256.\<close>

definition is_digit :: "char \<Rightarrow> bool" where
  "is_digit c \<longleftrightarrow> c \<in> set ''0123456789''"

definition py_strip :: "string \<Rightarrow> string" where
  "py_strip s = rev (dropWhile py_isspace (rev (dropWhile py_isspace s)))"

fun starts_with :: "string \<Rightarrow> string \<Rightarrow> bool" where
  "starts_with [] s = True"
| "starts_with (p # ps) [] = False"
| "starts_with (p # ps) (c # cs) = (p = c \<and> starts_with ps cs)"

text \<open>\<^verbatim>\<open>pat in s\<close>.\<close>

fun contains :: "string \<Rightarrow> string \<Rightarrow> bool" where
  "contains pat [] = (pat = [])"
| "contains pat (c # cs) = (starts_with pat (c # cs) \<or> contains pat cs)"

text \<open>
  \<^verbatim>\<open>s.replace(old, new)\<close>: the occurrences of \<open>old\<close> are taken from the left and do not
  overlap. The source never passes an empty \<open>old\<close>, and the model leaves \<open>s\<close> as it is
  there.
\<close>

function py_replace :: "string \<Rightarrow> string \<Rightarrow> string \<Rightarrow> string" where
  "py_replace old new [] = []"
| "py_replace old new (c # cs) =
     (if old \<noteq> [] \<and> starts_with old (c # cs)
      then new @ py_replace old new (drop (length old) (c # cs))
      else c # py_replace old new cs)"
  by pat_completeness auto
termination
  by (relation "measure (\<lambda>(old, new, s). length s)") auto

text \<open>\<^verbatim>\<open>s.split(sep)\<close> for a non-empty separator.\<close>

function py_split :: "string \<Rightarrow> string \<Rightarrow> string list" where
  "py_split sep [] = [[]]"
| "py_split sep (c # cs) =
     (if sep \<noteq> [] \<and> starts_with sep (c # cs)
      then [] # py_split sep (drop (length sep) (c # cs))
      else (case py_split sep cs of
              [] \<Rightarrow> [[c]]
            | x # xs \<Rightarrow> (c # x) # xs))"
  by pat_completeness auto
termination
  by (relation "measure (\<lambda>(sep, s). length s)") auto

text \<open>\<^verbatim>\<open>str(n)\<close> for an integer.\<close>

function str_nat :: "nat \<Rightarrow> string" where
  "str_nat n = (if n < 10 then [''0123456789'' ! n]
                else str_nat (n div 10) @ [''0123456789'' ! (n mod 10)])"
  by pat_completeness auto
termination
  by (relation "measure id") auto

declare str_nat.simps [simp del]

definition str_int :: "int \<Rightarrow> string" where
  "str_int i = (if i < 0 then CHR ''-'' # str_nat (nat (- i)) else str_nat (nat i))"

text \<open>
  The digits of a numeric literal, \<^verbatim>\<open>digit (["_"] digit)*\<close>: single underscores are
  allowed between digits.
\<close>

fun digitpart :: "string \<Rightarrow> bool" where
  "digitpart [] = False"
| "digitpart [c] = is_digit c"
| "digitpart (c # d # cs) =
     (is_digit c \<and> (if d = CHR ''_'' then digitpart cs else digitpart (d # cs)))"

definition digit_val :: "char \<Rightarrow> int" where
  "digit_val c = of_char c - 48"

definition digits_val :: "string \<Rightarrow> int" where
  "digits_val s = foldl (\<lambda>acc c. 10 * acc + digit_val c) 0 (filter is_digit s)"

text \<open>
  The white space that \<^verbatim>\<open>int()\<close> and \<^verbatim>\<open>float()\<close> strip from both ends of their
  argument: the ASCII white space of C, and the two other space characters below 256.
\<close>

definition num_space :: "char \<Rightarrow> bool" where
  "num_space c \<longleftrightarrow>
     c \<in> set [CHR 0x09, CHR 0x0A, CHR 0x0B, CHR 0x0C, CHR 0x0D, CHR 0x20, CHR 0x85, CHR 0xA0]"

definition num_strip :: "string \<Rightarrow> string" where
  "num_strip s = rev (dropWhile num_space (rev (dropWhile num_space s)))"

text \<open>
  \<^verbatim>\<open>int(s)\<close> in base 10. CPython refuses a literal of more than
  \<^verbatim>\<open>sys.get_int_max_str_digits()\<close> digits (4300 unless reconfigured) with a ValueError.
\<close>

definition int_max_str_digits :: nat where
  "int_max_str_digits = 4300"

definition py_int :: "string \<Rightarrow> int res" where
  "py_int s =
     (let t = num_strip s;
          neg = (t \<noteq> [] \<and> hd t = CHR ''-'');
          body = (if t \<noteq> [] \<and> (hd t = CHR ''-'' \<or> hd t = CHR ''+'') then tl t else t)
      in if digitpart body \<and> length (filter is_digit body) \<le> int_max_str_digits
         then Ok (if neg then - digits_val body else digits_val body)
         else Raise ValueError)"

section \<open>response\_normalization.py\<close>

text \<open>
  \<^verbatim>\<open>re.search('^\\\\text\{(?P<text>.+?)\}$', s)\<close>, giving the group \<open>text\<close>. The
  pattern is anchored at both ends; \<open>$\<close> also matches before a newline that ends the
  string, \<open>.\<close> matches every character but the newline, and the group is not empty. So
  the group is what stands between the opening \<^verbatim>\<open>\text{\<close> and the closing brace that
  ends the string.
\<close>

definition text_group :: "string \<Rightarrow> string option" where
  "text_group s =
     (let s' = (if s \<noteq> [] \<and> last s = newline then butlast s else s);
          t = drop 6 (butlast s')
      in if starts_with (bslash # ''text{'') s' \<and> last s' = CHR ''}''
            \<and> t \<noteq> [] \<and> newline \<notin> set t
         then Some t else None)"

fun fix_fracs_loop :: "string \<Rightarrow> string \<Rightarrow> string list \<Rightarrow> string res" where
  "fix_fracs_loop string new_str [] = Ok new_str"
| "fix_fracs_loop string new_str (substr # rest) =
     (case substr of
        [] \<Rightarrow> Raise IndexError
      | c0 # _ \<Rightarrow>
          if c0 = CHR ''{''
          then fix_fracs_loop string (new_str @ bslash # ''frac'' @ substr) rest
          else if length substr < 2 then Ok string
          else
            (let a = substr ! 0; b = substr ! 1 in
             if b \<noteq> CHR ''{'' then
               (if length substr > 2
                then fix_fracs_loop string
                       (new_str @ bslash # ''frac'' @ ''{'' @ [a] @ ''}{'' @ [b] @ ''}''
                          @ drop 2 substr) rest
                else fix_fracs_loop string
                       (new_str @ bslash # ''frac'' @ ''{'' @ [a] @ ''}{'' @ [b] @ ''}'') rest)
             else
               (if length substr > 2
                then fix_fracs_loop string
                       (new_str @ bslash # ''frac'' @ ''{'' @ [a] @ ''}'' @ [b]
                          @ drop 2 substr) rest
                else fix_fracs_loop string
                       (new_str @ bslash # ''frac'' @ ''{'' @ [a] @ ''}'' @ [b]) rest)))"

definition fix_fracs :: "string \<Rightarrow> string res" where
  "fix_fracs string =
     (let substrs = py_split (bslash # ''frac'') string in
      if length substrs > 1 then fix_fracs_loop string (hd substrs) (tl substrs)
      else Ok (hd substrs))"

definition fix_a_slash_b :: "string \<Rightarrow> string" where
  "fix_a_slash_b string =
     (if length (py_split ''/'' string) \<noteq> 2 then string
      else
        (let a = py_split ''/'' string ! 0; b = py_split ''/'' string ! 1 in
         case py_int a of
           Ok a' \<Rightarrow>
             (case py_int b of
                Ok b' \<Rightarrow>
                  if string = str_int a' @ ''/'' @ str_int b'
                  then bslash # ''frac{'' @ str_int a' @ ''}{'' @ str_int b' @ ''}''
                  else string
              | _ \<Rightarrow> string)
         | _ \<Rightarrow> string))"

definition remove_right_units :: "string \<Rightarrow> string res" where
  "remove_right_units string =
     (if contains (bslash # ''text{ '') string then
        (let splits = py_split (bslash # ''text{ '') string in
         if length splits \<noteq> 2 then Raise AssertionError else Ok (splits ! 0))
      else Ok string)"

fun fix_sqrt_loop :: "string \<Rightarrow> string list \<Rightarrow> string res" where
  "fix_sqrt_loop new_string [] = Ok new_string"
| "fix_sqrt_loop new_string (split # rest) =
     (case split of
        [] \<Rightarrow> Raise IndexError
      | c # cs \<Rightarrow>
          if c \<noteq> CHR ''{''
          then fix_sqrt_loop (new_string @ bslash # ''sqrt{'' @ [c] @ ''}'' @ cs) rest
          else fix_sqrt_loop (new_string @ bslash # ''sqrt'' @ split) rest)"

definition fix_sqrt :: "string \<Rightarrow> string res" where
  "fix_sqrt string =
     (if \<not> contains (bslash # ''sqrt'') string then Ok string
      else
        (let splits = py_split (bslash # ''sqrt'') string in
         fix_sqrt_loop (hd splits) (tl splits)))"

text \<open>
  The dictionary \<^verbatim>\<open>multi_char_replacements\<close> in its iteration order. The literal
  writes the key \<^verbatim>\<open>'\\%'\<close> a second time as \<^verbatim>\<open>'\%'\<close>, which is the same string: the
  dictionary holds it once, at its first place.
\<close>

definition multi_char_replacements :: "(string \<times> string) list" where
  "multi_char_replacements =
     [([newline], ''''),
      ([bslash, bslash], [bslash]),
      (''tfrac'', ''frac''),
      (''dfrac'', ''frac''),
      (bslash # ''left'', ''''),
      (bslash # ''right'', ''''),
      (''^{'' @ bslash # ''circ}'', ''''),
      (''^'' @ bslash # ''circ'', ''''),
      ([bslash, CHR ''$''], ''''),
      ([bslash, CHR ''%''], ''''),
      ('' .'', '' 0.''),
      (''{.'', ''{0.''),
      ([bslash, CHR ''!''], '''')]"

text \<open>
  The rewrites of \<^verbatim>\<open>_strip_string\<close> up to the point where the units are removed: the
  replacements, and a \<open>0\<close> before a leading dot.
\<close>

definition strip_string_pre :: "string \<Rightarrow> string" where
  "strip_string_pre string =
     (let string = foldl (\<lambda>s (old, new). py_replace old new s) string multi_char_replacements
      in if string \<noteq> [] \<and> hd string = CHR ''.'' then CHR ''0'' # string else string)"

text \<open>The rewrites of \<^verbatim>\<open>_strip_string\<close> that follow the removal of the units.\<close>

definition strip_string_post :: "string \<Rightarrow> string res" where
  "strip_string_post string =
     (let string =
            (if length (py_split ''='' string) = 2
             then (if length (py_split ''='' string ! 0) \<le> 2
                   then py_split ''='' string ! 1 else string)
             else string)
      in case fix_sqrt string of
           Ok string \<Rightarrow>
             (let string = filter (\<lambda>c. c \<noteq> CHR '' '') string in
              case fix_fracs string of
                Ok string \<Rightarrow>
                  (let string = (if string = ''0.5'' then bslash # ''frac{1}{2}'' else string)
                   in Ok (fix_a_slash_b string))
              | Raise e \<Rightarrow> Raise e
              | Hang \<Rightarrow> Hang)
         | Raise e \<Rightarrow> Raise e
         | Hang \<Rightarrow> Hang)"

definition strip_string :: "string \<Rightarrow> string res" where
  "strip_string string =
     (if length string = 0 then Ok string
      else
        (case remove_right_units (strip_string_pre string) of
           Ok string \<Rightarrow> strip_string_post string
         | Raise e \<Rightarrow> Raise e
         | Hang \<Rightarrow> Hang))"

text \<open>
  \<^verbatim>\<open>normalize_answer\<close>: whatever is raised inside the \<^verbatim>\<open>try\<close> is caught and the
  answer, as it stands at that point, is returned. \<open>unwrap_text\<close> is the answer that
  \<^verbatim>\<open>_strip_string\<close> is called on: stripped, and without an enclosing \<^verbatim>\<open>\text{}\<close>.
\<close>

definition unwrap_text :: "string \<Rightarrow> string" where
  "unwrap_text answer =
     (let answer = py_strip answer in
      case text_group answer of Some t \<Rightarrow> py_strip t | None \<Rightarrow> answer)"

definition normalize_answer :: "string option \<Rightarrow> string option" where
  "normalize_answer answer =
     (case answer of
        None \<Rightarrow> None
      | Some a \<Rightarrow>
          (let a = unwrap_text a in
           case strip_string a of
             Ok r \<Rightarrow> Some r
           | _ \<Rightarrow> Some a))"

text \<open>\<^verbatim>\<open>s.count(pat)\<close>: the occurrences of \<open>pat\<close> that \<^verbatim>\<open>split\<close> cuts at.\<close>

definition count_occ :: "string \<Rightarrow> string \<Rightarrow> nat" where
  "count_occ pat s = length (py_split pat s) - 1"

section \<open>Regular expressions and floats of the extended normalizer\<close>

text \<open>
  \<^verbatim>\<open>re.sub\<close> scans the string from the left. \<open>m\<close> tries the pattern at the start of
  what is left and gives the replacement and the rest after the match; where it fails,
  the character is kept and the scan moves on by one. Every pattern of the source
  consumes at least one character, and the scanner takes a match that consumes none as
  no match.
\<close>

function re_sub :: "(string \<Rightarrow> (string \<times> string) option) \<Rightarrow> string \<Rightarrow> string" where
  "re_sub m [] = []"
| "re_sub m (c # cs) =
     (case m (c # cs) of
        None \<Rightarrow> c # re_sub m cs
      | Some (rep, rest) \<Rightarrow>
          if length rest < length (c # cs) then rep @ re_sub m rest
          else c # re_sub m cs)"
  by pat_completeness auto
termination
  by (relation "measure (\<lambda>(m, s). length s)") auto

abbreviation (input) is_space :: "char \<Rightarrow> bool" where
  "is_space c \<equiv> c = CHR '' ''"

text \<open>
  \<^verbatim>\<open>(\d)(,)(\d\d\d)($|\D)\<close> replaced by \<^verbatim>\<open>\1\3\4\<close>. The last group is empty at the end
  of the string and before a newline that ends it, and one character that is no digit
  otherwise.
\<close>

definition comma_match :: "string \<Rightarrow> (string \<times> string) option" where
  "comma_match s =
     (case s of
        d # c # x # y # z # rest \<Rightarrow>
          if is_digit d \<and> c = CHR '','' \<and> is_digit x \<and> is_digit y \<and> is_digit z then
            (if rest = [] \<or> rest = [newline] then Some ([d, x, y, z], rest)
             else if \<not> is_digit (hd rest) then Some ([d, x, y, z, hd rest], tl rest)
             else None)
          else None
      | _ \<Rightarrow> None)"

text \<open>
  \<^verbatim>\<open>_strip_properly_formatted_commas\<close>: the loop \<^verbatim>\<open>while True\<close> has no bound, so the
  model is a partial function, and \<open>None\<close> stands for a loop that does not end.
\<close>

partial_function (option) strip_properly_formatted_commas :: "string \<Rightarrow> string option" where
  "strip_properly_formatted_commas expr =
     (let next_expr = re_sub comma_match expr in
      if next_expr = expr then Some next_expr
      else strip_properly_formatted_commas next_expr)"

declare strip_properly_formatted_commas.simps [code]

text \<open>
  What \<^verbatim>\<open>(es)?(s)? *(\^[0-9]+)?\<close> leaves of the text that follows a unit. Each part is
  optional and greedy, and nothing after it can fail.
\<close>

definition unit_suffix :: "string \<Rightarrow> string" where
  "unit_suffix s =
     (let s1 = (if starts_with ''es'' s then drop 2 s else s);
          s2 = (if starts_with ''s'' s1 then drop 1 s1 else s1);
          s3 = dropWhile is_space s2
      in case s3 of
           c # d # r \<Rightarrow> if c = CHR ''^'' \<and> is_digit d then dropWhile is_digit r else s3
         | _ \<Rightarrow> s3)"

definition unit_match :: "string \<Rightarrow> string \<Rightarrow> (string \<times> string) option" where
  "unit_match unit s =
     (if starts_with unit s then Some ([], unit_suffix (drop (length unit) s)) else None)"

definition units :: "string list" where
  "units = [''degree'', ''cm'', ''centimeter'', ''meter'', ''mile'', ''second'', ''minute'',
            ''hour'', ''day'', ''week'', ''month'', ''year'', ''foot'', ''feet'', ''inch'',
            ''yard'']"

text \<open>\<^verbatim>\<open>\^ *\\circ\<close>, replaced by nothing.\<close>

definition circ_match :: "string \<Rightarrow> (string \<times> string) option" where
  "circ_match s =
     (case s of
        [] \<Rightarrow> None
      | c # r \<Rightarrow>
          if c = CHR ''^'' \<and> starts_with (bslash # ''circ'') (dropWhile is_space r)
          then Some ([], drop 5 (dropWhile is_space r)) else None)"

text \<open>\<^verbatim>\<open>,\\! *\<close>, replaced by nothing.\<close>

definition thin_comma_match :: "string \<Rightarrow> (string \<times> string) option" where
  "thin_comma_match s =
     (if starts_with ('','' @ [bslash, CHR ''!'']) s
      then Some ([], dropWhile is_space (drop 3 s)) else None)"

text \<open>\<^verbatim>\<open>- *\<close>, replaced by \<^verbatim>\<open>-\<close>.\<close>

definition minus_match :: "string \<Rightarrow> (string \<times> string) option" where
  "minus_match s =
     (case s of
        [] \<Rightarrow> None
      | c # r \<Rightarrow> if c = CHR ''-'' then Some (''-'', dropWhile is_space r) else None)"

text \<open>\<^verbatim>\<open>([0-9]) +([0-9])\<close>, replaced by \<^verbatim>\<open>\1+\2\<close>.\<close>

definition mixed_match :: "string \<Rightarrow> (string \<times> string) option" where
  "mixed_match s =
     (case s of
        d # sp # r \<Rightarrow>
          (case dropWhile is_space r of
             e # rest \<Rightarrow>
               if is_digit d \<and> is_space sp \<and> is_digit e then Some ([d, CHR ''+'', e], rest)
               else None
           | [] \<Rightarrow> None)
      | _ \<Rightarrow> None)"

definition inject_implicit_mixed_number :: "string \<Rightarrow> string" where
  "inject_implicit_mixed_number step = re_sub mixed_match step"

text \<open>
  Patterns that are only tested, not rewritten, are matched by derivatives: \<open>Cls\<close> is
  a character of a list, \<open>NotCls\<close> a character outside it.
\<close>

datatype rexp =
  Nul | Eps | Cls "char list" | NotCls "char list"
  | Seq rexp rexp | Alt rexp rexp | Star rexp

fun nullable :: "rexp \<Rightarrow> bool" where
  "nullable Nul = False"
| "nullable Eps = True"
| "nullable (Cls cs) = False"
| "nullable (NotCls cs) = False"
| "nullable (Seq r s) = (nullable r \<and> nullable s)"
| "nullable (Alt r s) = (nullable r \<or> nullable s)"
| "nullable (Star r) = True"

fun deriv :: "char \<Rightarrow> rexp \<Rightarrow> rexp" where
  "deriv c Nul = Nul"
| "deriv c Eps = Nul"
| "deriv c (Cls cs) = (if c \<in> set cs then Eps else Nul)"
| "deriv c (NotCls cs) = (if c \<in> set cs then Nul else Eps)"
| "deriv c (Seq r s) =
     (if nullable r then Alt (Seq (deriv c r) s) (deriv c s) else Seq (deriv c r) s)"
| "deriv c (Alt r s) = Alt (deriv c r) (deriv c s)"
| "deriv c (Star r) = Seq (deriv c r) (Star r)"

definition fullmatch :: "rexp \<Rightarrow> string \<Rightarrow> bool" where
  "fullmatch r s = nullable (foldl (\<lambda>r c. deriv c r) r s)"

text \<open>\<^verbatim>\<open>re.search(r, s) is not None\<close> for a pattern without anchors.\<close>

definition re_search :: "rexp \<Rightarrow> string \<Rightarrow> bool" where
  "re_search r s = fullmatch (Seq (Star (NotCls [])) (Seq r (Star (NotCls [])))) s"

abbreviation (input) Opt :: "rexp \<Rightarrow> rexp" where
  "Opt r \<equiv> Alt r Eps"

abbreviation (input) Plus :: "rexp \<Rightarrow> rexp" where
  "Plus r \<equiv> Seq r (Star r)"

abbreviation (input) Digit :: rexp where
  "Digit \<equiv> Cls ''0123456789''"

abbreviation (input) Dot :: rexp where
  "Dot \<equiv> NotCls [newline]"

text \<open>
  \<^verbatim>\<open>_is_frac\<close>: \<^verbatim>\<open>^-?[0-9]+.?/0*[1-9][0-9]*.?$\<close>; the \<open>$\<close> also matches before a
  newline that ends the string.
\<close>

definition frac_rexp :: rexp where
  "frac_rexp =
     Seq (Opt (Cls ''-''))
       (Seq (Plus Digit)
          (Seq (Opt Dot)
             (Seq (Cls ''/'')
                (Seq (Star (Cls ''0''))
                   (Seq (Cls ''123456789'')
                      (Seq (Star Digit) (Opt Dot)))))))"

definition is_frac :: "string \<Rightarrow> bool" where
  "is_frac expr \<longleftrightarrow>
     fullmatch frac_rexp expr
     \<or> (expr \<noteq> [] \<and> last expr = newline \<and> fullmatch frac_rexp (butlast expr))"

text \<open>
  A Python float is a double. Its value is kept as the rational it denotes; the sign of a
  zero is dropped, as nothing here reads it.
\<close>

datatype pyfloat = Finite rat | Infinite bool | NaN

definition pow2 :: "int \<Rightarrow> rat" where
  "pow2 k = (if 0 \<le> k then 2 ^ nat k else 1 / 2 ^ nat (- k))"

text \<open>The \<open>e\<close> with \<open>2 ^ e \<le> |x| < 2 ^ (e + 1)\<close>, for \<open>x\<close> other than 0.\<close>

definition binade :: "rat \<Rightarrow> int" where
  "binade x =
     (let (a, b) = quotient_of \<bar>x\<bar>;
          d = bitlen a - bitlen b
      in if pow2 d \<le> \<bar>x\<bar> then d else d - 1)"

definition round_half_even :: "rat \<Rightarrow> int" where
  "round_half_even x =
     (let f = \<lfloor>x\<rfloor>; r = x - of_int f in
      if r < 1 / 2 then f else if 1 / 2 < r then f + 1
      else if even f then f else f + 1)"

text \<open>
  The double nearest to a rational, ties to even: 53 bits of mantissa, exponents from
  -1022 (below it the spacing stays that of the subnormals), and an infinity from
  \<open>2 ^ 1024\<close> on.
\<close>

definition round_to_double :: "rat \<Rightarrow> pyfloat" where
  "round_to_double x =
     (if x = 0 then Finite 0
      else
        (let q = pow2 (max (binade x) (- 1022) - 52);
             y = of_int (round_half_even (\<bar>x\<bar> / q)) * q
         in if pow2 1024 \<le> y then Infinite (x < 0)
            else Finite (if x < 0 then - y else y)))"

text \<open>Lower case of one character, as \<^verbatim>\<open>str.lower\<close> has it below 256.\<close>

definition lower_char :: "char \<Rightarrow> char" where
  "lower_char c =
     (let n = (of_char c :: nat) in
      if (65 \<le> n \<and> n \<le> 90) \<or> (192 \<le> n \<and> n \<le> 222 \<and> n \<noteq> 215)
      then char_of (n + 32) else c)"

definition py_lower :: "string \<Rightarrow> string" where
  "py_lower s = map lower_char s"

text \<open>
  The mantissa of a float literal, \<^verbatim>\<open>[digitpart] "." digitpart | digitpart ["."]\<close>, as
  its digits before and after the point.
\<close>

definition mantissa :: "string \<Rightarrow> (string \<times> string) option" where
  "mantissa m =
     (let ip = takeWhile (\<lambda>c. c \<noteq> CHR ''.'') m;
          rest = dropWhile (\<lambda>c. c \<noteq> CHR ''.'') m
      in if rest = [] then (if digitpart ip then Some (ip, []) else None)
         else
           (let fp = tl rest in
            if (ip = [] \<and> digitpart fp) \<or> (digitpart ip \<and> (fp = [] \<or> digitpart fp))
            then Some (ip, fp) else None))"

text \<open>The exponent of a float literal, \<^verbatim>\<open>[sign] digitpart\<close> after the \<open>e\<close>.\<close>

definition exponent :: "string \<Rightarrow> int option" where
  "exponent e =
     (let body = (if e \<noteq> [] \<and> (hd e = CHR ''-'' \<or> hd e = CHR ''+'') then tl e else e) in
      if digitpart body
      then Some (if e \<noteq> [] \<and> hd e = CHR ''-'' then - digits_val body
                 else digits_val body)
      else None)"

definition pow10 :: "int \<Rightarrow> rat" where
  "pow10 k = (if 0 \<le> k then 10 ^ nat k else 1 / 10 ^ nat (- k))"

text \<open>
  \<^verbatim>\<open>float(s)\<close> on a string: white space around, a sign, then \<open>inf\<close>, \<open>infinity\<close> or
  \<open>nan\<close> in any case, or a decimal literal with an optional exponent. Anything else is
  a ValueError.
\<close>

definition py_float :: "string \<Rightarrow> pyfloat res" where
  "py_float s =
     (let t = num_strip s;
          neg = (t \<noteq> [] \<and> hd t = CHR ''-'');
          body = (if t \<noteq> [] \<and> (hd t = CHR ''-'' \<or> hd t = CHR ''+'') then tl t else t);
          is_e = (\<lambda>c. c = CHR ''e'' \<or> c = CHR ''E'');
          m = takeWhile (\<lambda>c. \<not> is_e c) body;
          e = dropWhile (\<lambda>c. \<not> is_e c) body
      in if py_lower body = ''inf'' \<or> py_lower body = ''infinity'' then Ok (Infinite neg)
         else if py_lower body = ''nan'' then Ok NaN
         else
           (case mantissa m of
              None \<Rightarrow> Raise ValueError
            | Some (ip, fp) \<Rightarrow>
                (case (if e = [] then Some 0 else exponent (tl e)) of
                   None \<Rightarrow> Raise ValueError
                 | Some x \<Rightarrow>
                     (let v = of_int (digits_val (ip @ fp))
                                * pow10 (x - int (length (filter is_digit fp)))
                      in Ok (round_to_double (if neg then - v else v))))))"

text \<open>\<^verbatim>\<open>round(x)\<close> and \<^verbatim>\<open>int(x)\<close> of a float, and \<^verbatim>\<open>float(n)\<close> of an integer.\<close>

definition py_round :: "pyfloat \<Rightarrow> int res" where
  "py_round x =
     (case x of
        Finite r \<Rightarrow> Ok (round_half_even r)
      | Infinite _ \<Rightarrow> Raise OverflowError
      | NaN \<Rightarrow> Raise ValueError)"

definition py_trunc :: "pyfloat \<Rightarrow> int res" where
  "py_trunc x =
     (case x of
        Finite r \<Rightarrow> Ok (if r < 0 then - \<lfloor>- r\<rfloor> else \<lfloor>r\<rfloor>)
      | Infinite _ \<Rightarrow> Raise OverflowError
      | NaN \<Rightarrow> Raise ValueError)"

definition float_of_int :: "int \<Rightarrow> pyfloat res" where
  "float_of_int n =
     (case round_to_double (of_int n) of
        Infinite _ \<Rightarrow> Raise OverflowError
      | f \<Rightarrow> Ok f)"

text \<open>Subtraction, absolute value and \<open>\<le>\<close> of doubles.\<close>

definition float_sub :: "pyfloat \<Rightarrow> pyfloat \<Rightarrow> pyfloat" where
  "float_sub x y =
     (case (x, y) of
        (Finite a, Finite b) \<Rightarrow> round_to_double (a - b)
      | (Finite a, Infinite n) \<Rightarrow> Infinite (\<not> n)
      | (Infinite n, Finite b) \<Rightarrow> Infinite n
      | (Infinite n, Infinite k) \<Rightarrow> (if n = k then NaN else Infinite n)
      | _ \<Rightarrow> NaN)"

definition float_abs :: "pyfloat \<Rightarrow> pyfloat" where
  "float_abs x = (case x of Finite a \<Rightarrow> Finite \<bar>a\<bar> | Infinite _ \<Rightarrow> Infinite False | NaN \<Rightarrow> NaN)"

definition float_le :: "pyfloat \<Rightarrow> pyfloat \<Rightarrow> bool" where
  "float_le x y =
     (case (x, y) of
        (Finite a, Finite b) \<Rightarrow> a \<le> b
      | (Finite a, Infinite n) \<Rightarrow> \<not> n
      | (Infinite n, Finite b) \<Rightarrow> n
      | (Infinite n, Infinite k) \<Rightarrow> n \<or> \<not> k
      | _ \<Rightarrow> False)"

text \<open>\<^verbatim>\<open>abs(x - int(round(x))) <= 1e-7\<close>, with what it can raise.\<close>

definition near_integer :: "pyfloat \<Rightarrow> bool res" where
  "near_integer x =
     (case py_round x of
        Ok n \<Rightarrow>
          (case float_of_int n of
             Ok f \<Rightarrow> Ok (float_le (float_abs (float_sub x f)) (round_to_double (1 / 10 ^ 7)))
           | Raise e \<Rightarrow> Raise e
           | Hang \<Rightarrow> Hang)
      | Raise e \<Rightarrow> Raise e
      | Hang \<Rightarrow> Hang)"

section \<open>evaluation.py\<close>

text \<open>
  A step that raises or hangs ends the computation; \<open>bind\<close> passes the value of a step
  that returns on to what follows.
\<close>

definition bind :: "'a res \<Rightarrow> ('a \<Rightarrow> 'b res) \<Rightarrow> 'b res" where
  "bind r f = (case r of Ok x \<Rightarrow> f x | Raise e \<Rightarrow> Raise e | Hang \<Rightarrow> Hang)"

text \<open>
  The two libraries the grader calls are parameters of the model. The LaTeX converter
  (\<^verbatim>\<open>LatexNodes2Text().latex_to_text\<close>) returns a text or raises. The symbolic library
  parses, simplifies and compares with zero; each of these calls returns, raises or hangs.
\<close>

type_synonym latex_converter = "string \<Rightarrow> exn + string"

record 'e sympy =
  parse_expr :: "string \<Rightarrow> 'e res"
  simplify :: "'e \<Rightarrow> 'e res"
  equals_zero :: "'e \<Rightarrow> bool res"

definition sympy_parse :: "'e sympy \<Rightarrow> string \<Rightarrow> 'e res" where
  "sympy_parse Y expr = parse_expr Y (py_replace ''^'' ''**'' expr)"

text \<open>
  \<^verbatim>\<open>_parse_latex\<close>. The text of the converter is read in the alphabet of the model; the
  replacements of the square root sign, of pi, of the infinity sign and of the union
  sign, which lie outside it, change nothing there. The middle dot and the
  multiplication sign are the characters 0xB7 and 0xD7.
\<close>

definition parse_latex :: "latex_converter \<Rightarrow> string \<Rightarrow> string res" where
  "parse_latex L expr =
     (let expr = py_replace (bslash # ''tfrac'') (bslash # ''frac'') expr;
          expr = py_replace (bslash # ''dfrac'') (bslash # ''frac'') expr;
          expr = py_replace (bslash # ''frac'') ('' '' @ bslash # ''frac'') expr
      in case L expr of
           Inl e \<Rightarrow> Raise e
         | Inr expr \<Rightarrow>
             (let expr = py_replace [CHR 0xB7] ''*'' expr;
                  expr = py_replace [CHR 0xD7] ''*'' expr
              in Ok (py_strip expr)))"

text \<open>\<^verbatim>\<open>_is_float\<close> catches the ValueError of \<^verbatim>\<open>float\<close> and nothing else.\<close>

definition is_float :: "string \<Rightarrow> bool res" where
  "is_float num =
     (case py_float num of
        Ok _ \<Rightarrow> Ok True
      | Raise e \<Rightarrow> (if e = ValueError then Ok False else Raise e)
      | Hang \<Rightarrow> Hang)"

text \<open>\<^verbatim>\<open>_is_int\<close>: whatever is raised gives \<open>False\<close>.\<close>

definition is_int :: "pyfloat \<Rightarrow> bool res" where
  "is_int x =
     (case near_integer x of
        Ok b \<Rightarrow> Ok b
      | Raise e \<Rightarrow> Ok False
      | Hang \<Rightarrow> Hang)"

definition str_is_int :: "string \<Rightarrow> bool res" where
  "str_is_int x =
     (case strip_properly_formatted_commas x of
        None \<Rightarrow> Hang
      | Some x \<Rightarrow>
          (case py_float x of
             Ok f \<Rightarrow>
               (case near_integer f of
                  Ok b \<Rightarrow> Ok b
                | Raise e \<Rightarrow> Ok False
                | Hang \<Rightarrow> Hang)
           | Raise e \<Rightarrow> Ok False
           | Hang \<Rightarrow> Hang))"

definition str_to_int :: "string \<Rightarrow> int res" where
  "str_to_int x = bind (py_float (py_replace '','' '''' x)) py_trunc"

text \<open>
  \<^verbatim>\<open>_normalize\<close> in three parts. The first one rewrites the text up to the removal of
  \<^verbatim>\<open>,\!\<close>: the enclosing \<^verbatim>\<open>\text{}\<close>, the dollar and percent signs, \<open>or\<close> and
  \<open>and\<close>, the scale words, the units, the degree sign and an enclosing pair of braces.
\<close>

definition normalize_head :: "string \<Rightarrow> string" where
  "normalize_head expr =
     (let expr = (case text_group expr of Some t \<Rightarrow> t | None \<Rightarrow> expr);
          expr = py_replace [bslash, CHR ''%''] ''%'' expr;
          expr = py_replace [bslash, CHR ''$''] ''$'' expr;
          expr = py_replace ''$'' '''' expr;
          expr = py_replace ''%'' '''' expr;
          expr = py_replace '' or '' '' , '' expr;
          expr = py_replace '' and '' '' , '' expr;
          expr = py_replace ''million'' ''*10^6'' expr;
          expr = py_replace ''billion'' ''*10^9'' expr;
          expr = py_replace ''trillion'' ''*10^12'' expr;
          expr = foldl (\<lambda>expr unit. re_sub (unit_match unit) expr) expr units;
          expr = re_sub circ_match expr;
          expr = (if length expr > 0 \<and> hd expr = CHR ''{'' \<and> last expr = CHR ''}''
                  then butlast (tl expr) else expr)
      in re_sub thin_comma_match expr)"

text \<open>
  The second part turns a float that is an integer into that integer, and calls the
  LaTeX converter when a backslash is left; what the converter raises is dropped.
\<close>

definition normalize_number :: "string \<Rightarrow> string res" where
  "normalize_number expr =
     bind (is_float expr) (\<lambda>fl.
       if fl then
         bind (py_float expr) (\<lambda>x.
           bind (is_int x) (\<lambda>i.
             if i then bind (py_round x) (\<lambda>n. Ok (str_int n)) else Ok expr))
       else Ok expr)"

definition normalize_latex :: "latex_converter \<Rightarrow> string \<Rightarrow> string" where
  "normalize_latex L expr =
     (if bslash \<in> set expr then
        (case parse_latex L expr of Ok e \<Rightarrow> e | _ \<Rightarrow> expr)
      else expr)"

text \<open>
  The third part: the minus signs, the mixed numbers, the spaces and braces, lower case,
  and an integer written with commas or as a float.
\<close>

definition normalize_tail :: "string \<Rightarrow> string res" where
  "normalize_tail expr =
     (let expr = re_sub minus_match expr;
          expr = inject_implicit_mixed_number expr;
          expr = py_replace '' '' '''' expr;
          expr = py_replace ''{'' '''' expr;
          expr = py_replace ''}'' '''' expr;
          expr = py_lower expr
      in bind (str_is_int expr) (\<lambda>i.
           if i then bind (str_to_int expr) (\<lambda>n. Ok (str_int n)) else Ok expr))"

definition normalize_expr :: "latex_converter \<Rightarrow> string option \<Rightarrow> string option res" where
  "normalize_expr L expr =
     (case expr of
        None \<Rightarrow> Ok None
      | Some expr \<Rightarrow>
          bind (normalize_number (normalize_head expr)) (\<lambda>expr.
            bind (normalize_tail (normalize_latex L expr)) (\<lambda>expr. Ok (Some expr))))"

text \<open>\<^verbatim>\<open>str.isalpha\<close> on one character.\<close>

definition py_isalpha :: "char \<Rightarrow> bool" where
  "py_isalpha c =
     (let n = (of_char c :: nat) in
      (65 \<le> n \<and> n \<le> 90) \<or> (97 \<le> n \<and> n \<le> 122) \<or> n = 170 \<or> n = 181 \<or> n = 186
      \<or> (192 \<le> n \<and> n \<le> 214) \<or> (216 \<le> n \<and> n \<le> 246) \<or> 248 \<le> n)"

definition count_unknown_letters_in_expr :: "string \<Rightarrow> nat" where
  "count_unknown_letters_in_expr expr =
     (let expr = py_replace ''sqrt'' '''' expr;
          expr = py_replace ''frac'' '''' expr
      in length (remdups (filter py_isalpha expr)))"

definition BAD_SUBSTRINGS :: "string list" where
  "BAD_SUBSTRINGS = [''^{'', ''^('']"

text \<open>\<^verbatim>\<open>\^[0-9]+\^\<close> and \<^verbatim>\<open>\^[0-9][0-9]+\<close>.\<close>

definition BAD_REGEXES :: "rexp list" where
  "BAD_REGEXES =
     [Seq (Cls ''^'') (Seq (Plus Digit) (Cls ''^'')),
      Seq (Cls ''^'') (Seq Digit (Plus Digit))]"

definition TUPLE_CHARS :: string where
  "TUPLE_CHARS = ''()[]''"

definition should_allow_eval :: "string \<Rightarrow> bool" where
  "should_allow_eval expr =
     (if count_unknown_letters_in_expr expr > 2 then False
      else if list_ex (\<lambda>bad_string. contains bad_string expr) BAD_SUBSTRINGS then False
      else if list_ex (\<lambda>bad_regex. re_search bad_regex expr) BAD_REGEXES then False
      else True)"

text \<open>
  \<^verbatim>\<open>are_equal_under_sympy\<close>: what the library raises is caught and leaves \<open>False\<close>; a
  call that hangs is not caught.
\<close>

definition difference_expr :: "string \<Rightarrow> string \<Rightarrow> string" where
  "difference_expr ground_truth_normalized given_normalized =
     ''('' @ ground_truth_normalized @ '')-('' @ given_normalized @ '')''"

definition are_equal_under_sympy :: "'e sympy \<Rightarrow> string \<Rightarrow> string \<Rightarrow> bool res" where
  "are_equal_under_sympy Y ground_truth_normalized given_normalized =
     (let expr = difference_expr ground_truth_normalized given_normalized in
      if should_allow_eval expr then
        (case bind (sympy_parse Y expr) (\<lambda>sympy_diff.
                bind (simplify Y sympy_diff) (\<lambda>simplified. equals_zero Y simplified)) of
           Ok z \<Rightarrow> Ok z
         | Raise e \<Rightarrow> Ok False
         | Hang \<Rightarrow> Hang)
      else Ok False)"

definition split_tuple :: "string \<Rightarrow> string list res" where
  "split_tuple expr =
     (case strip_properly_formatted_commas expr of
        None \<Rightarrow> Hang
      | Some expr \<Rightarrow>
          if length expr = 0 then Ok []
          else if length expr > 2 \<and> hd expr \<in> set TUPLE_CHARS \<and> last expr \<in> set TUPLE_CHARS
                  \<and> list_all (\<lambda>ch. ch \<notin> set (butlast (tl expr))) TUPLE_CHARS
          then Ok (map py_strip (py_split '','' (butlast (tl expr))))
          else Ok [expr])"

text \<open>The comparison of one pair of elements in the loop of \<^verbatim>\<open>grade_answer\<close>.\<close>

definition compare_elem :: "'e sympy \<Rightarrow> string \<Rightarrow> string \<Rightarrow> bool res" where
  "compare_elem Y ground_truth_elem given_elem =
     (if is_frac ground_truth_elem \<and> is_frac given_elem
      then Ok (ground_truth_elem = given_elem)
      else
        bind (str_is_int ground_truth_elem) (\<lambda>a.
          bind (str_is_int given_elem) (\<lambda>b.
            if a \<noteq> b then Ok False
            else are_equal_under_sympy Y ground_truth_elem given_elem)))"

text \<open>
  The loop over the pairs. \<open>is_correct\<close> is the variable of that name, \<open>None\<close> while
  it is unbound; the loop is left at the first pair that fails.
\<close>

fun grade_elems :: "'e sympy \<Rightarrow> bool option \<Rightarrow> (string \<times> string) list \<Rightarrow> bool res" where
  "grade_elems Y is_correct [] =
     (case is_correct of None \<Rightarrow> Raise UnboundLocalError | Some b \<Rightarrow> Ok b)"
| "grade_elems Y is_correct ((ground_truth_elem, given_elem) # rest) =
     bind (compare_elem Y ground_truth_elem given_elem) (\<lambda>b.
       if \<not> b then Ok False else grade_elems Y (Some b) rest)"

text \<open>What \<^verbatim>\<open>grade_answer\<close> does once the two extended normal forms differ.\<close>

definition grade_tuples :: "'e sympy \<Rightarrow> string \<Rightarrow> string \<Rightarrow> bool res" where
  "grade_tuples Y ground_truth_normalized given_normalized =
     (if length given_normalized = 0 then Ok False
      else
        bind (split_tuple ground_truth_normalized) (\<lambda>ground_truth_elems.
          bind (split_tuple given_normalized) (\<lambda>given_elems.
            bind (if length ground_truth_elems > 1
                  then (if ground_truth_normalized = [] then Raise IndexError
                        else Ok (hd ground_truth_normalized \<noteq> hd given_normalized
                                 \<or> last ground_truth_normalized \<noteq> last given_normalized))
                  else Ok False) (\<lambda>shape_differs.
              if shape_differs then Ok False
              else if length ground_truth_elems \<noteq> length given_elems then Ok False
              else grade_elems Y None (zip ground_truth_elems given_elems)))))"

definition grade_answer ::
  "latex_converter \<Rightarrow> 'e sympy \<Rightarrow> string option \<Rightarrow> string \<Rightarrow> bool res" where
  "grade_answer L Y given_answer ground_truth =
     (case given_answer of
        None \<Rightarrow> Ok False
      | Some given \<Rightarrow>
          if given = [] then Ok False
          else if normalize_answer (Some ground_truth) = normalize_answer (Some given)
          then Ok True
          else
            bind (normalize_expr L (Some ground_truth)) (\<lambda>ground_truth_normalized.
              bind (normalize_expr L (Some given)) (\<lambda>given_normalized.
                case ground_truth_normalized of
                  None \<Rightarrow> Ok False
                | Some gt \<Rightarrow>
                    if ground_truth_normalized = given_normalized then Ok True
                    else
                      (case given_normalized of
                         None \<Rightarrow> Raise TypeError
                       | Some gv \<Rightarrow> grade_tuples Y gt gv))))"

subsection \<open>Sample libraries for the concrete instances\<close>

text \<open>
  The general statements below hold for every converter and every symbolic library. The
  concrete instances are evaluated with these: a converter that raises on every text, a
  symbolic library whose every call hangs, one whose parser raises, and one that parses
  and then fails to simplify.
\<close>

definition raising_latex :: latex_converter where
  "raising_latex s = Inl LibraryError"

definition hanging_sympy :: "unit sympy" where
  "hanging_sympy =
     \<lparr>parse_expr = (\<lambda>s. Hang), simplify = (\<lambda>e. Hang), equals_zero = (\<lambda>e. Hang)\<rparr>"

definition rejecting_sympy :: "unit sympy" where
  "rejecting_sympy =
     \<lparr>parse_expr = (\<lambda>s. Raise LibraryError), simplify = (\<lambda>e. Ok e),
      equals_zero = (\<lambda>e. Ok True)\<rparr>"

definition unsimplifying_sympy :: "unit sympy" where
  "unsimplifying_sympy =
     \<lparr>parse_expr = (\<lambda>s. Ok ()), simplify = (\<lambda>e. Raise LibraryError),
      equals_zero = (\<lambda>e. Ok True)\<rparr>"

section \<open>Properties of the syntactic normalizer\<close>

lemmas norm_eval =
  normalize_answer_def unwrap_text_def strip_string_def strip_string_pre_def
  strip_string_post_def py_strip_def py_isspace_def text_group_def
  multi_char_replacements_def remove_right_units_def fix_sqrt_def fix_fracs_def
  fix_a_slash_b_def count_occ_def

lemma py_split_no_occurrence:
  "\<not> contains pat s \<Longrightarrow> py_split pat s = [s]"
  by (induction pat s rule: py_split.induct) auto

lemma remove_right_units_twice:
  assumes "1 < count_occ (bslash # ''text{ '') s"
  shows "remove_right_units s = Raise AssertionError"
proof -
  have len: "length (py_split (bslash # ''text{ '') s) \<noteq> 2"
    using assms by (simp add: count_occ_def)
  have "contains (bslash # ''text{ '') s"
  proof (rule ccontr)
    assume "\<not> contains (bslash # ''text{ '') s"
    then have "py_split (bslash # ''text{ '') s = [s]"
      by (rule py_split_no_occurrence)
    with assms show False by (simp add: count_occ_def)
  qed
  with len show ?thesis by (simp add: remove_right_units_def Let_def)
qed

text \<open>
  C2, as the code has it. When the string that reaches the removal of the units holds
  \<^verbatim>\<open>\text{ \<close> more than once, the assertion of \<^verbatim>\<open>_remove_right_units\<close> fails, the
  \<^verbatim>\<open>except\<close> of \<^verbatim>\<open>normalize_answer\<close> catches it, and the result is the answer after
  stripping and unwrapping only: none of the rewrites of \<^verbatim>\<open>_strip_string\<close> is kept.
\<close>

theorem normalize_answer_units_twice:
  assumes "1 < count_occ (bslash # ''text{ '') (strip_string_pre (unwrap_text s))"
  shows "normalize_answer (Some s) = Some (unwrap_text s)"
proof -
  have ne: "unwrap_text s \<noteq> []"
  proof
    assume "unwrap_text s = []"
    with assms show False
      by (simp add: strip_string_pre_def multi_char_replacements_def count_occ_def)
  qed
  have "remove_right_units (strip_string_pre (unwrap_text s)) = Raise AssertionError"
    using assms by (rule remove_right_units_twice)
  with ne show ?thesis
    by (simp add: normalize_answer_def strip_string_def Let_def)
qed

theorem normalize_answer_units_twice_witness:
  "1 < count_occ (bslash # ''text{ '')
         (strip_string_pre
            (unwrap_text (''1 '' @ bslash # ''text{ a}'' @ bslash # ''text{ b}'')))
   \<and> normalize_answer (Some (''1 '' @ bslash # ''text{ a}'' @ bslash # ''text{ b}''))
       = Some (''1 '' @ bslash # ''text{ a}'' @ bslash # ''text{ b}'')"
proof -
  have h: "1 < count_occ (bslash # ''text{ '')
         (strip_string_pre
            (unwrap_text (''1 '' @ bslash # ''text{ a}'' @ bslash # ''text{ b}'')))"
    by (simp add: norm_eval)
  have u: "unwrap_text (''1 '' @ bslash # ''text{ a}'' @ bslash # ''text{ b}'')
           = ''1 '' @ bslash # ''text{ a}'' @ bslash # ''text{ b}''"
    by (simp add: norm_eval)
  show ?thesis using h normalize_answer_units_twice [OF h] u by simp
qed

text \<open>
  C2 as stated fails on \<^verbatim>\<open>1 \text{ a}\text{ b}\<close>: the pattern stands twice, applying
  the remaining rewrites without the removal of the units would give
  \<^verbatim>\<open>1\text{a}\text{b}\<close>, and \<^verbatim>\<open>normalize_answer\<close> returns the input with its spaces.
\<close>

theorem units_twice_counterexample:
  "count_occ (bslash # ''text{ '')
     (strip_string_pre
        (unwrap_text (''1 '' @ bslash # ''text{ a}'' @ bslash # ''text{ b}''))) = 2
   \<and> strip_string_post
        (strip_string_pre
           (unwrap_text (''1 '' @ bslash # ''text{ a}'' @ bslash # ''text{ b}'')))
       = Ok (''1'' @ bslash # ''text{a}'' @ bslash # ''text{b}'')
   \<and> normalize_answer (Some (''1 '' @ bslash # ''text{ a}'' @ bslash # ''text{ b}''))
       = Some (''1 '' @ bslash # ''text{ a}'' @ bslash # ''text{ b}'')
   \<and> normalize_answer (Some (''1 '' @ bslash # ''text{ a}'' @ bslash # ''text{ b}''))
       \<noteq> Some (''1'' @ bslash # ''text{a}'' @ bslash # ''text{b}'')"
  by (simp add: norm_eval)

text \<open>
  C9. \<^verbatim>\<open>normalize_answer\<close> returns a string on every string. When \<^verbatim>\<open>_strip_string\<close>
  raises, the result is the answer after stripping and unwrapping, with no rewrite
  applied. \<^verbatim>\<open>_fix_sqrt\<close> raises on \<^verbatim>\<open>\sqrt\<close> and \<^verbatim>\<open>_fix_fracs\<close> on \<^verbatim>\<open>\frac\<close>, and
  the two answers at the end, which end in these, come back with their inner spaces.
\<close>

theorem normalize_answer_total:
  "(\<exists>t. normalize_answer (Some s) = Some t)
   \<and> (\<forall>e. strip_string (unwrap_text s) = Raise e \<longrightarrow>
          normalize_answer (Some s) = Some (unwrap_text s))
   \<and> fix_sqrt (bslash # ''sqrt'') = Raise IndexError
   \<and> fix_fracs (bslash # ''frac'') = Raise IndexError
   \<and> normalize_answer (Some (''x '' @ bslash # ''sqrt'')) = Some (''x '' @ bslash # ''sqrt'')
   \<and> normalize_answer (Some (bslash # ''text{1 + '' @ bslash # ''frac} ''))
       = Some (''1 + '' @ bslash # ''frac'')"
  apply (intro conjI)
  subgoal by (simp add: normalize_answer_def Let_def split: res.splits)
  subgoal by (simp add: normalize_answer_def Let_def split: res.splits)
  subgoal by (simp add: norm_eval)
  subgoal by (simp add: norm_eval)
  subgoal by (simp add: norm_eval)
  subgoal by (simp add: norm_eval)
  done

theorem normalize_answer_total_witness:
  "strip_string (unwrap_text (''x '' @ bslash # ''sqrt'')) = Raise IndexError
   \<and> normalize_answer (Some (''x '' @ bslash # ''sqrt''))
       = Some (unwrap_text (''x '' @ bslash # ''sqrt''))"
proof -
  have h: "strip_string (unwrap_text (''x '' @ bslash # ''sqrt'')) = Raise IndexError"
    by (simp add: norm_eval)
  from normalize_answer_total [of "''x '' @ bslash # ''sqrt''"]
  have "\<forall>e. strip_string (unwrap_text (''x '' @ bslash # ''sqrt'')) = Raise e \<longrightarrow>
          normalize_answer (Some (''x '' @ bslash # ''sqrt''))
            = Some (unwrap_text (''x '' @ bslash # ''sqrt''))"
    by blast
  with h show ?thesis by blast
qed

section \<open>Properties of the comma stripper and the tuple splitter\<close>

lemma comma_match_length:
  "comma_match s = Some (rep, rest) \<Longrightarrow> Suc (length rep + length rest) = length s"
  by (auto simp: comma_match_def split: list.splits if_splits)

lemma re_sub_comma_shrinks:
  "length (re_sub comma_match s) \<le> length s
   \<and> (length (re_sub comma_match s) = length s \<longrightarrow> re_sub comma_match s = s)"
proof (induction "comma_match" s rule: re_sub.induct)
  case 1
  show ?case by simp
next
  case (2 c cs)
  show ?case
  proof (cases "comma_match (c # cs)")
    case None
    with 2 show ?thesis by simp
  next
    case (Some p)
    obtain rep rest where p: "p = (rep, rest)" by (cases p)
    from Some p have len: "Suc (length rep + length rest) = length (c # cs)"
      by (simp add: comma_match_length)
    then have lt: "length rest < length (c # cs)" by simp
    from 2(2) [OF Some p [symmetric] lt]
    have "length (re_sub comma_match rest) \<le> length rest" by simp
    with len lt Some p show ?thesis by simp
  qed
qed

lemma strip_commas_returns:
  "\<exists>r. strip_properly_formatted_commas s = Some r"
proof (induction s rule: length_induct)
  case (1 s)
  show ?case
  proof (cases "re_sub comma_match s = s")
    case True
    then show ?thesis
      by (subst strip_properly_formatted_commas.simps) simp
  next
    case False
    with re_sub_comma_shrinks [of s] have "length (re_sub comma_match s) < length s"
      by (cases "length (re_sub comma_match s) = length s") auto
    with 1 obtain r where "strip_properly_formatted_commas (re_sub comma_match s) = Some r"
      by blast
    with False show ?thesis
      by (subst strip_properly_formatted_commas.simps) simp
  qed
qed

text \<open>
  C10. A pass of the substitution that changes the string makes it shorter, so the loop
  of \<^verbatim>\<open>_strip_properly_formatted_commas\<close> ends on every string, and \<^verbatim>\<open>split_tuple\<close>
  returns a list on every string.
\<close>

theorem strip_commas_terminates:
  "(re_sub comma_match s \<noteq> s \<longrightarrow> length (re_sub comma_match s) < length s)
   \<and> (\<exists>r. strip_properly_formatted_commas s = Some r)
   \<and> (\<exists>elems. split_tuple s = Ok elems)"
proof (intro conjI)
  show "re_sub comma_match s \<noteq> s \<longrightarrow> length (re_sub comma_match s) < length s"
    using re_sub_comma_shrinks [of s]
    by (cases "length (re_sub comma_match s) = length s") auto
  show "\<exists>r. strip_properly_formatted_commas s = Some r"
    by (rule strip_commas_returns)
  obtain r where "strip_properly_formatted_commas s = Some r"
    using strip_commas_returns by blast
  then show "\<exists>elems. split_tuple s = Ok elems"
    by (simp add: split_tuple_def)
qed

theorem strip_commas_terminates_witness:
  "re_sub comma_match ''1,000'' \<noteq> ''1,000''
   \<and> length (re_sub comma_match ''1,000'') < length ''1,000''"
proof -
  have h: "re_sub comma_match ''1,000'' \<noteq> ''1,000''"
    by (simp add: comma_match_def is_digit_def)
  with strip_commas_terminates [of "''1,000''"] show ?thesis by blast
qed

section \<open>Properties of the symbolic equality check\<close>

lemmas sympy_eval =
  are_equal_under_sympy_def difference_expr_def should_allow_eval_def
  count_unknown_letters_in_expr_def py_isalpha_def BAD_SUBSTRINGS_def BAD_REGEXES_def
  re_search_def fullmatch_def sympy_parse_def bind_def

text \<open>
  C5. \<^verbatim>\<open>are_equal_under_sympy\<close> raises nothing, whatever the library does. When the
  parser raises, when the simplifier raises, when the comparison with zero raises, and
  when the heuristics refuse the expression, the result is \<open>False\<close>.
\<close>

theorem are_equal_under_sympy_never_raises:
  "are_equal_under_sympy Y gt g \<noteq> Raise e
   \<and> (sympy_parse Y (difference_expr gt g) = Raise e1
        \<longrightarrow> are_equal_under_sympy Y gt g = Ok False)
   \<and> (sympy_parse Y (difference_expr gt g) = Ok d \<and> simplify Y d = Raise e2
        \<longrightarrow> are_equal_under_sympy Y gt g = Ok False)
   \<and> (sympy_parse Y (difference_expr gt g) = Ok d \<and> simplify Y d = Ok d'
        \<and> equals_zero Y d' = Raise e3
        \<longrightarrow> are_equal_under_sympy Y gt g = Ok False)
   \<and> (\<not> should_allow_eval (difference_expr gt g)
        \<longrightarrow> are_equal_under_sympy Y gt g = Ok False)"
  by (simp add: are_equal_under_sympy_def bind_def Let_def split: res.splits)

theorem are_equal_under_sympy_never_raises_witness:
  "sympy_parse rejecting_sympy (difference_expr ''x'' ''y'') = Raise LibraryError
   \<and> are_equal_under_sympy rejecting_sympy ''x'' ''y'' = Ok False
   \<and> sympy_parse unsimplifying_sympy (difference_expr ''x'' ''y'') = Ok ()
   \<and> simplify unsimplifying_sympy () = Raise LibraryError
   \<and> are_equal_under_sympy unsimplifying_sympy ''x'' ''y'' = Ok False
   \<and> \<not> should_allow_eval (difference_expr ''abc'' ''1'')
   \<and> are_equal_under_sympy hanging_sympy ''abc'' ''1'' = Ok False"
proof -
  have p: "sympy_parse rejecting_sympy (difference_expr ''x'' ''y'') = Raise LibraryError"
    by (simp add: sympy_parse_def rejecting_sympy_def)
  have q: "sympy_parse unsimplifying_sympy (difference_expr ''x'' ''y'') = Ok ()
           \<and> simplify unsimplifying_sympy () = Raise LibraryError"
    by (simp add: sympy_parse_def unsimplifying_sympy_def)
  have r: "\<not> should_allow_eval (difference_expr ''abc'' ''1'')"
    by (simp add: sympy_eval)
  from p q r
    are_equal_under_sympy_never_raises
      [of rejecting_sympy "''x''" "''y''" _ LibraryError]
    are_equal_under_sympy_never_raises
      [of unsimplifying_sympy "''x''" "''y''" _ _ "()" LibraryError]
    are_equal_under_sympy_never_raises [of hanging_sympy "''abc''" "''1''"]
  show ?thesis by blast
qed

text \<open>
  C6. When the difference expression has more than two distinct letters once \<open>sqrt\<close>
  and \<open>frac\<close> are removed, or holds \<^verbatim>\<open>^{\<close> or \<^verbatim>\<open>^(\<close>, or matches one of the two
  patterns of \<^verbatim>\<open>BAD_REGEXES\<close>, the result is \<open>False\<close> for every library, also for one
  whose calls never come back: the library is not called.
\<close>

theorem are_equal_under_sympy_refuses:
  assumes "2 < count_unknown_letters_in_expr (difference_expr gt g)
           \<or> contains ''^{'' (difference_expr gt g)
           \<or> contains ''^('' (difference_expr gt g)
           \<or> re_search (Seq (Cls ''^'') (Seq (Plus Digit) (Cls ''^''))) (difference_expr gt g)
           \<or> re_search (Seq (Cls ''^'') (Seq Digit (Plus Digit))) (difference_expr gt g)"
  shows "are_equal_under_sympy Y gt g = Ok False"
proof -
  from assms have "\<not> should_allow_eval (difference_expr gt g)"
    by (auto simp: should_allow_eval_def BAD_SUBSTRINGS_def BAD_REGEXES_def)
  then show ?thesis
    by (simp add: are_equal_under_sympy_def Let_def)
qed

theorem are_equal_under_sympy_refuses_witness:
  "2 < count_unknown_letters_in_expr (difference_expr ''abc'' ''1'')
   \<and> are_equal_under_sympy hanging_sympy ''abc'' ''1'' = Ok False
   \<and> contains ''^{'' (difference_expr ''x^{2}'' ''1'')
   \<and> are_equal_under_sympy hanging_sympy ''x^{2}'' ''1'' = Ok False
   \<and> contains ''^('' (difference_expr ''x^(2)'' ''1'')
   \<and> are_equal_under_sympy hanging_sympy ''x^(2)'' ''1'' = Ok False
   \<and> re_search (Seq (Cls ''^'') (Seq (Plus Digit) (Cls ''^''))) (difference_expr ''2^3^4'' ''1'')
   \<and> are_equal_under_sympy hanging_sympy ''2^3^4'' ''1'' = Ok False
   \<and> re_search (Seq (Cls ''^'') (Seq Digit (Plus Digit))) (difference_expr ''2^10'' ''1'')
   \<and> are_equal_under_sympy hanging_sympy ''2^10'' ''1'' = Ok False"
proof -
  have a: "2 < count_unknown_letters_in_expr (difference_expr ''abc'' ''1'')"
    by (simp add: sympy_eval)
  have b: "contains ''^{'' (difference_expr ''x^{2}'' ''1'')"
    by (simp add: sympy_eval)
  have c: "contains ''^('' (difference_expr ''x^(2)'' ''1'')"
    by (simp add: sympy_eval)
  have d: "re_search (Seq (Cls ''^'') (Seq (Plus Digit) (Cls ''^'')))
             (difference_expr ''2^3^4'' ''1'')"
    by (simp add: sympy_eval)
  have e: "re_search (Seq (Cls ''^'') (Seq Digit (Plus Digit)))
             (difference_expr ''2^10'' ''1'')"
    by (simp add: sympy_eval)
  from a b c d e
    are_equal_under_sympy_refuses [of "''abc''" "''1''" hanging_sympy]
    are_equal_under_sympy_refuses [of "''x^{2}''" "''1''" hanging_sympy]
    are_equal_under_sympy_refuses [of "''x^(2)''" "''1''" hanging_sympy]
    are_equal_under_sympy_refuses [of "''2^3^4''" "''1''" hanging_sympy]
    are_equal_under_sympy_refuses [of "''2^10''" "''1''" hanging_sympy]
  show ?thesis by blast
qed

section \<open>Properties of the grader\<close>

lemmas ext_eval =
  normalize_expr_def normalize_head_def normalize_number_def normalize_latex_def
  normalize_tail_def inject_implicit_mixed_number_def is_float_def is_int_def
  str_is_int_def str_to_int_def units_def unit_match_def circ_match_def
  thin_comma_match_def minus_match_def mixed_match_def comma_match_def text_group_def
  py_lower_def lower_char_def split_tuple_def TUPLE_CHARS_def py_strip_def py_isspace_def
  bind_def

lemma py_float_frac_1_2: "py_float ''1/2'' = Raise ValueError"
  by code_simp

lemma py_float_frac_2_4: "py_float ''2/4'' = Raise ValueError"
  by code_simp

lemma strip_commas_1_2: "strip_properly_formatted_commas ''1/2'' = Some ''1/2''"
  by (subst strip_properly_formatted_commas.simps) (simp add: comma_match_def is_digit_def)

lemma strip_commas_2_4: "strip_properly_formatted_commas ''2/4'' = Some ''2/4''"
  by (subst strip_properly_formatted_commas.simps) (simp add: comma_match_def is_digit_def)

lemma normalize_expr_1_2: "normalize_expr L (Some ''1/2'') = Ok (Some ''1/2'')"
  by (simp add: ext_eval py_float_frac_1_2 strip_commas_1_2 is_digit_def)

lemma normalize_expr_2_4: "normalize_expr L (Some ''2/4'') = Ok (Some ''2/4'')"
  by (simp add: ext_eval py_float_frac_2_4 strip_commas_2_4 is_digit_def)

lemma normalize_answer_1_2:
  "normalize_answer (Some ''1/2'') = Some (bslash # ''frac{1}{2}'')"
  by code_simp

lemma normalize_answer_2_4:
  "normalize_answer (Some ''2/4'') = Some (bslash # ''frac{2}{4}'')"
  by code_simp












text \<open>
  C4, as the code has it. When the syntactic normal forms differ and the two extended
  normal forms split into different numbers of elements, the grade is \<open>False\<close>.
\<close>

lemma strip_commas_fixpoint:
  "re_sub comma_match s = s \<Longrightarrow> strip_properly_formatted_commas s = Some s"
  by (subst strip_properly_formatted_commas.simps) simp

lemma split_tuple_empty: "split_tuple [] = Ok []"
  by (simp add: split_tuple_def strip_commas_fixpoint)

theorem count_mismatch_fails:
  assumes diff: "normalize_answer (Some given) \<noteq> normalize_answer (Some ground_truth)"
    and gt: "normalize_expr L (Some ground_truth) = Ok (Some gt)"
    and gv: "normalize_expr L (Some given) = Ok (Some gv)"
    and gt_elems: "split_tuple gt = Ok ground_truth_elems"
    and gv_elems: "split_tuple gv = Ok given_elems"
    and len: "length ground_truth_elems \<noteq> length given_elems"
  shows "grade_answer L Y (Some given) ground_truth = Ok False"
proof -
  from gt_elems gv_elems len have ne: "gt \<noteq> gv" by auto
  have gt_ne: "gt \<noteq> []" if "1 < length ground_truth_elems"
  proof
    assume "gt = []"
    with gt_elems that show False
      by (simp add: split_tuple_empty)
  qed
  have "grade_tuples Y gt gv = Ok False"
    using gt_elems gv_elems len gt_ne
    by (simp add: grade_tuples_def bind_def)
  with diff gt gv ne show ?thesis
    by (auto simp: grade_answer_def bind_def)
qed


lemma py_float_pair: "py_float ''(1,2)'' = Raise ValueError"
  by code_simp

lemma py_float_triple: "py_float ''(1,2,3)'' = Raise ValueError"
  by code_simp

lemma py_float_assigned_pair: "py_float ''x=(1,2)'' = Raise ValueError"
  by code_simp

lemma strip_commas_pair: "strip_properly_formatted_commas ''(1,2)'' = Some ''(1,2)''"
  by (rule strip_commas_fixpoint) (simp add: comma_match_def is_digit_def)

lemma strip_commas_triple: "strip_properly_formatted_commas ''(1,2,3)'' = Some ''(1,2,3)''"
  by (rule strip_commas_fixpoint) (simp add: comma_match_def is_digit_def)

lemma strip_commas_assigned_pair:
  "strip_properly_formatted_commas ''x=(1,2)'' = Some ''x=(1,2)''"
  by (rule strip_commas_fixpoint) (simp add: comma_match_def is_digit_def)

lemma normalize_expr_pair: "normalize_expr L (Some ''(1,2)'') = Ok (Some ''(1,2)'')"
  by (simp add: ext_eval py_float_pair strip_commas_pair is_digit_def)

lemma normalize_expr_triple: "normalize_expr L (Some ''(1,2,3)'') = Ok (Some ''(1,2,3)'')"
  by (simp add: ext_eval py_float_triple strip_commas_triple is_digit_def)

lemma normalize_expr_assigned_pair:
  "normalize_expr L (Some ''x=(1,2)'') = Ok (Some ''x=(1,2)'')"
  by (simp add: ext_eval py_float_assigned_pair strip_commas_assigned_pair is_digit_def)

lemma split_tuple_pair: "split_tuple ''(1,2)'' = Ok [''1'', ''2'']"
  by (simp add: split_tuple_def strip_commas_pair TUPLE_CHARS_def py_strip_def py_isspace_def)

lemma split_tuple_triple: "split_tuple ''(1,2,3)'' = Ok [''1'', ''2'', ''3'']"
  by (simp add: split_tuple_def strip_commas_triple TUPLE_CHARS_def py_strip_def py_isspace_def)

lemma split_tuple_assigned_pair: "split_tuple ''x=(1,2)'' = Ok [''x=(1,2)'']"
  by (simp add: split_tuple_def strip_commas_assigned_pair TUPLE_CHARS_def)

lemma normalize_answer_pair: "normalize_answer (Some ''(1,2)'') = Some ''(1,2)''"
  by code_simp

lemma normalize_answer_triple: "normalize_answer (Some ''(1,2,3)'') = Some ''(1,2,3)''"
  by code_simp

lemma normalize_answer_assigned_pair: "normalize_answer (Some ''x=(1,2)'') = Some ''(1,2)''"
  by code_simp

theorem count_mismatch_fails_witness:
  "normalize_answer (Some ''(1,2,3)'') \<noteq> normalize_answer (Some ''(1,2)'')
   \<and> normalize_expr raising_latex (Some ''(1,2)'') = Ok (Some ''(1,2)'')
   \<and> normalize_expr raising_latex (Some ''(1,2,3)'') = Ok (Some ''(1,2,3)'')
   \<and> split_tuple ''(1,2)'' = Ok [''1'', ''2'']
   \<and> split_tuple ''(1,2,3)'' = Ok [''1'', ''2'', ''3'']
   \<and> length [''1'', ''2''] \<noteq> length [''1'', ''2'', ''3'']
   \<and> grade_answer raising_latex hanging_sympy (Some ''(1,2,3)'') ''(1,2)'' = Ok False"
proof -
  have a: "normalize_answer (Some ''(1,2,3)'') \<noteq> normalize_answer (Some ''(1,2)'')"
    by (simp add: normalize_answer_pair normalize_answer_triple)
  have f: "length [''1'', ''2''] \<noteq> length [''1'', ''2'', ''3'']"
    by simp
  from a f normalize_expr_pair [of raising_latex] normalize_expr_triple [of raising_latex]
    split_tuple_pair split_tuple_triple
    count_mismatch_fails [OF a normalize_expr_pair normalize_expr_triple
      split_tuple_pair split_tuple_triple f, of raising_latex hanging_sympy]
  show ?thesis by blast
qed

text \<open>
  C4 as stated fails on the given answer \<^verbatim>\<open>x=(1,2)\<close> for the ground truth
  \<^verbatim>\<open>(1,2)\<close>: the extended normal forms split into one and into two elements, and the
  grade is \<open>True\<close>, because the syntactic normal forms are both \<^verbatim>\<open>(1,2)\<close>.
\<close>

theorem count_mismatch_counterexample:
  "normalize_expr raising_latex (Some ''(1,2)'') = Ok (Some ''(1,2)'')
   \<and> split_tuple ''(1,2)'' = Ok [''1'', ''2'']
   \<and> normalize_expr raising_latex (Some ''x=(1,2)'') = Ok (Some ''x=(1,2)'')
   \<and> split_tuple ''x=(1,2)'' = Ok [''x=(1,2)'']
   \<and> grade_answer raising_latex hanging_sympy (Some ''x=(1,2)'') ''(1,2)'' = Ok True"
  by (simp add: normalize_expr_pair normalize_expr_assigned_pair split_tuple_pair
      split_tuple_assigned_pair grade_answer_def normalize_answer_pair
      normalize_answer_assigned_pair)

section \<open>The extended normalizer returns\<close>

lemma py_float_outcome:
  "py_float s \<noteq> Hang \<and> (py_float s = Raise e \<longrightarrow> e = ValueError)"
  by (auto simp: py_float_def Let_def split: option.splits)

lemma near_integer_outcome: "near_integer x \<noteq> Hang"
  by (auto simp: near_integer_def py_round_def float_of_int_def
      split: pyfloat.splits res.splits)

lemma near_integer_finite: "near_integer x = Ok b \<Longrightarrow> \<exists>r. x = Finite r"
  by (cases x) (auto simp: near_integer_def py_round_def)

lemma is_float_outcome: "\<exists>b. is_float s = Ok b"
  using py_float_outcome [of s]
  by (cases "py_float s") (auto simp: is_float_def)

lemma normalize_number_returns: "\<exists>t. normalize_number s = Ok t"
proof (cases "py_float s")
  case (Ok x)
  show ?thesis
  proof (cases "near_integer x")
    case (Ok b)
    with near_integer_finite obtain r where "x = Finite r" by blast
    with Ok \<open>py_float s = Ok x\<close> show ?thesis
      by (simp add: normalize_number_def is_float_def is_int_def bind_def py_round_def)
  next
    case (Raise e)
    with \<open>py_float s = Ok x\<close> show ?thesis
      by (simp add: normalize_number_def is_float_def is_int_def bind_def)
  next
    case Hang
    with near_integer_outcome show ?thesis by blast
  qed
next
  case (Raise e)
  with py_float_outcome [of s e] have "e = ValueError" by simp
  with Raise show ?thesis
    by (simp add: normalize_number_def is_float_def bind_def)
next
  case Hang
  with py_float_outcome show ?thesis by blast
qed

abbreviation (input) comma :: char where
  "comma \<equiv> CHR '',''"

lemma dropWhile_keeps: "x \<in> set xs \<Longrightarrow> \<not> P x \<Longrightarrow> x \<in> set (dropWhile P xs)"
  by (induction xs) auto

lemma num_strip_keeps_comma: "comma \<in> set s \<Longrightarrow> comma \<in> set (num_strip s)"
proof -
  assume "comma \<in> set s"
  then have "comma \<in> set (dropWhile num_space s)"
    by (rule dropWhile_keeps) (simp add: num_space_def)
  then have "comma \<in> set (rev (dropWhile num_space s))" by simp
  then have "comma \<in> set (dropWhile num_space (rev (dropWhile num_space s)))"
    by (rule dropWhile_keeps) (simp add: num_space_def)
  then show ?thesis by (simp add: num_strip_def)
qed

lemma digitpart_no_comma: "digitpart x \<Longrightarrow> comma \<notin> set x"
  by (induction x rule: digitpart.induct) (auto simp: is_digit_def split: if_splits)

lemma mantissa_no_comma:
  assumes "mantissa m = Some (ip, fp)"
  shows "comma \<notin> set m"
proof -
  let ?P = "\<lambda>c. c \<noteq> CHR ''.''"
  have m: "m = takeWhile ?P m @ dropWhile ?P m" by simp
  show ?thesis
  proof (cases "dropWhile ?P m")
    case Nil
    with assms have "digitpart (takeWhile ?P m)"
      by (simp add: mantissa_def Let_def split: if_splits)
    then have "comma \<notin> set (takeWhile ?P m)" by (rule digitpart_no_comma)
    with Nil m show ?thesis by (metis append_Nil2)
  next
    case (Cons d rest)
    from Cons have "dropWhile ?P m \<noteq> []" by simp
    then have "\<not> ?P (hd (dropWhile ?P m))" by (rule hd_dropWhile)
    with Cons have d: "d = CHR ''.''" by simp
    from assms Cons have ok:
      "(takeWhile ?P m = [] \<and> digitpart rest)
       \<or> (digitpart (takeWhile ?P m) \<and> (rest = [] \<or> digitpart rest))"
      by (simp add: mantissa_def Let_def split: if_splits)
    then have "comma \<notin> set (takeWhile ?P m) \<and> comma \<notin> set rest"
      using digitpart_no_comma by auto
    moreover have "set m = set (takeWhile ?P m) \<union> set (d # rest)"
      using m Cons by (metis set_append)
    ultimately show ?thesis using d by simp
  qed
qed

lemma exponent_no_comma: "exponent e = Some x \<Longrightarrow> comma \<notin> set e"
  by (cases e) (auto simp: exponent_def Let_def split: if_splits dest: digitpart_no_comma)

lemma lower_char_of_comma: "lower_char comma = comma"
  by (simp add: lower_char_def)

lemma py_lower_no_comma:
  assumes "py_lower body = w" and "comma \<notin> set w"
  shows "comma \<notin> set body"
proof
  assume "comma \<in> set body"
  then have "lower_char comma \<in> set (map lower_char body)" by simp
  with assms show False by (simp add: py_lower_def lower_char_of_comma)
qed

lemma py_float_no_comma:
  assumes "py_float s = Ok f"
  shows "comma \<notin> set s"
proof
  assume c: "comma \<in> set s"
  define t where "t = num_strip s"
  define body where
    "body = (if t \<noteq> [] \<and> (hd t = CHR ''-'' \<or> hd t = CHR ''+'') then tl t else t)"
  define m where "m = takeWhile (\<lambda>c. \<not> (c = CHR ''e'' \<or> c = CHR ''E'')) body"
  define e where "e = dropWhile (\<lambda>c. \<not> (c = CHR ''e'' \<or> c = CHR ''E'')) body"
  from c have "comma \<in> set t"
    unfolding t_def by (rule num_strip_keeps_comma)
  then have cb: "comma \<in> set body"
    unfolding body_def by (cases t) auto
  have "body = m @ e" by (simp add: m_def e_def)
  with cb have me: "comma \<in> set m \<or> comma \<in> set e" by auto
  from assms consider
      (word) "py_lower body = ''inf'' \<or> py_lower body = ''infinity'' \<or> py_lower body = ''nan''"
    | (num) ip fp x where "mantissa m = Some (ip, fp)"
        "(if e = [] then Some 0 else exponent (tl e)) = Some x"
    unfolding py_float_def t_def [symmetric] Let_def body_def [symmetric]
      m_def [symmetric] e_def [symmetric]
    by (auto split: if_splits option.splits)
  then show False
  proof cases
    case word
    then have "comma \<notin> set body"
      using py_lower_no_comma [of body "''inf''"] py_lower_no_comma [of body "''infinity''"]
        py_lower_no_comma [of body "''nan''"]
      by auto
    with cb show False by simp
  next
    case num
    from num(1) have nm: "comma \<notin> set m" by (rule mantissa_no_comma)
    have "comma \<notin> set e"
    proof (cases e)
      case Nil
      then show ?thesis by simp
    next
      case (Cons d rest)
      from Cons have "dropWhile (\<lambda>c. \<not> (c = CHR ''e'' \<or> c = CHR ''E'')) body \<noteq> []"
        by (simp add: e_def)
      then have "\<not> \<not> (hd e = CHR ''e'' \<or> hd e = CHR ''E'')"
        unfolding e_def by (rule hd_dropWhile)
      with Cons have d: "d \<noteq> comma" by auto
      from num(2) Cons have "comma \<notin> set rest"
        by (auto dest: exponent_no_comma)
      with d show ?thesis using Cons by auto
    qed
    with nm me show False by simp
  qed
qed

lemma is_digit_not_comma: "is_digit c \<Longrightarrow> (c = comma) = False"
  by (auto simp: is_digit_def)

lemma comma_match_shape:
  "comma_match s = Some (rep, rest) \<Longrightarrow>
   \<exists>d x y z r. s = d # comma # x # y # z # r \<and> rep @ rest = d # x # y # z # r
     \<and> is_digit d \<and> is_digit x \<and> is_digit y \<and> is_digit z"
  by (auto simp: comma_match_def split: list.splits if_splits)

lemma comma_match_filter:
  assumes "comma_match s = Some (rep, rest)"
  shows "filter (\<lambda>c. c \<noteq> comma) (rep @ rest) = filter (\<lambda>c. c \<noteq> comma) s"
proof -
  from comma_match_shape [OF assms] obtain d x y z r where
    "s = d # comma # x # y # z # r" "rep @ rest = d # x # y # z # r"
    by blast
  then show ?thesis by simp
qed

lemma re_sub_comma_filter:
  "filter (\<lambda>c. c \<noteq> comma) (re_sub comma_match s) = filter (\<lambda>c. c \<noteq> comma) s"
proof (induction "comma_match" s rule: re_sub.induct)
  case 1
  show ?case by simp
next
  case (2 c cs)
  show ?case
  proof (cases "comma_match (c # cs)")
    case None
    with 2 show ?thesis by simp
  next
    case (Some p)
    obtain rep rest where p: "p = (rep, rest)" by (cases p)
    from Some p have lt: "length rest < length (c # cs)"
      using comma_match_length [of "c # cs" rep rest] by simp
    from 2(2) [OF Some p [symmetric] lt]
    have ih: "filter (\<lambda>c. c \<noteq> comma) (re_sub comma_match rest)
              = filter (\<lambda>c. c \<noteq> comma) rest" .
    from Some p
    have m: "filter (\<lambda>c. c \<noteq> comma) (rep @ rest) = filter (\<lambda>c. c \<noteq> comma) (c # cs)"
      by (simp only: comma_match_filter)
    from Some p lt have "re_sub comma_match (c # cs) = rep @ re_sub comma_match rest"
      by simp
    then have "filter (\<lambda>c. c \<noteq> comma) (re_sub comma_match (c # cs))
               = filter (\<lambda>c. c \<noteq> comma) rep @ filter (\<lambda>c. c \<noteq> comma) rest"
      using ih by (simp only: filter_append)
    also have "\<dots> = filter (\<lambda>c. c \<noteq> comma) (c # cs)"
      using m by (simp only: filter_append)
    finally show ?thesis .
  qed
qed

lemma strip_commas_filter:
  "strip_properly_formatted_commas s = Some r \<Longrightarrow>
   filter (\<lambda>c. c \<noteq> comma) r = filter (\<lambda>c. c \<noteq> comma) s"
proof (induction s rule: length_induct)
  case (1 s)
  show ?case
  proof (cases "re_sub comma_match s = s")
    case True
    with 1(2) show ?thesis
      by (subst (asm) strip_properly_formatted_commas.simps) simp
  next
    case False
    with re_sub_comma_shrinks [of s] have lt: "length (re_sub comma_match s) < length s"
      by (cases "length (re_sub comma_match s) = length s") auto
    from False 1(2) have "strip_properly_formatted_commas (re_sub comma_match s) = Some r"
      by (subst (asm) strip_properly_formatted_commas.simps) simp
    with 1(1) lt
    have "filter (\<lambda>c. c \<noteq> comma) r = filter (\<lambda>c. c \<noteq> comma) (re_sub comma_match s)"
      by blast
    then show ?thesis by (simp add: re_sub_comma_filter)
  qed
qed

lemma py_replace_comma: "py_replace '','' '''' s = filter (\<lambda>c. c \<noteq> comma) s"
  by (induction s) auto

lemma str_is_int_outcome: "\<exists>b. str_is_int s = Ok b"
proof -
  obtain r where r: "strip_properly_formatted_commas s = Some r"
    using strip_commas_returns by blast
  show ?thesis
    using r py_float_outcome [of r] near_integer_outcome
    by (auto simp: str_is_int_def split: res.splits)
qed

lemma str_to_int_returns:
  assumes "str_is_int s = Ok True"
  shows "\<exists>n. str_to_int s = Ok n"
proof -
  obtain r where r: "strip_properly_formatted_commas s = Some r"
    using strip_commas_returns by blast
  with assms obtain f where f: "py_float r = Ok f" and n: "near_integer f = Ok True"
    by (auto simp: str_is_int_def split: res.splits)
  from f have "comma \<notin> set r" by (rule py_float_no_comma)
  then have "filter (\<lambda>c. c \<noteq> comma) r = r" by (induction r) auto
  with strip_commas_filter [OF r] have "py_replace '','' '''' s = r"
    by (simp add: py_replace_comma)
  moreover from n obtain q where "f = Finite q"
    using near_integer_finite by blast
  ultimately show ?thesis using f
    by (simp add: str_to_int_def bind_def py_trunc_def)
qed

lemma normalize_tail_returns: "\<exists>t. normalize_tail s = Ok t"
proof -
  let ?e = "py_lower (py_replace ''}'' '''' (py_replace ''{'' '''' (py_replace '' '' ''''
              (inject_implicit_mixed_number (re_sub minus_match s)))))"
  obtain b where b: "str_is_int ?e = Ok b"
    using str_is_int_outcome by blast
  show ?thesis
  proof (cases b)
    case True
    with b have "str_is_int ?e = Ok True" by simp
    then obtain n where "str_to_int ?e = Ok n"
      using str_to_int_returns by blast
    with b True show ?thesis
      by (simp add: normalize_tail_def bind_def Let_def)
  next
    case False
    with b show ?thesis
      by (simp add: normalize_tail_def bind_def Let_def)
  qed
qed

text \<open>
  C8. On every string \<^verbatim>\<open>_normalize\<close> returns a string: it raises nothing, its loop
  ends, and its result is not \<open>None\<close>, for every LaTeX converter. So the branch of
  \<^verbatim>\<open>grade_answer\<close> for a normalized ground truth that is \<open>None\<close> is never taken: where
  the grader gets as far as the extended normal forms, both are strings.
\<close>

theorem normalize_expr_returns_string:
  "(\<exists>t. normalize_expr L (Some s) = Ok (Some t))
   \<and> normalize_expr L (Some ground_truth) \<noteq> Ok None
   \<and> (\<exists>gt gv. normalize_expr L (Some ground_truth) = Ok (Some gt)
        \<and> normalize_expr L (Some given) = Ok (Some gv)
        \<and> grade_answer L Y (Some given) ground_truth =
            (if given = [] then Ok False
             else if normalize_answer (Some ground_truth) = normalize_answer (Some given)
             then Ok True
             else if gt = gv then Ok True
             else grade_tuples Y gt gv))"
proof -
  have ret: "\<exists>t. normalize_expr L (Some x) = Ok (Some t)" for x
  proof -
    obtain a where a: "normalize_number (normalize_head x) = Ok a"
      using normalize_number_returns by blast
    obtain t where "normalize_tail (normalize_latex L a) = Ok t"
      using normalize_tail_returns by blast
    with a show ?thesis by (simp add: normalize_expr_def bind_def)
  qed
  obtain gt where gt: "normalize_expr L (Some ground_truth) = Ok (Some gt)"
    using ret by blast
  obtain gv where gv: "normalize_expr L (Some given) = Ok (Some gv)"
    using ret by blast
  have g: "grade_answer L Y (Some given) ground_truth =
            (if given = [] then Ok False
             else if normalize_answer (Some ground_truth) = normalize_answer (Some given)
             then Ok True
             else if gt = gv then Ok True
             else grade_tuples Y gt gv)"
    by (simp add: grade_answer_def bind_def gt gv)
  show ?thesis
  proof (intro conjI)
    show "\<exists>t. normalize_expr L (Some s) = Ok (Some t)" by (rule ret)
    show "normalize_expr L (Some ground_truth) \<noteq> Ok None" by (simp add: gt)
    show "\<exists>gt gv. normalize_expr L (Some ground_truth) = Ok (Some gt)
        \<and> normalize_expr L (Some given) = Ok (Some gv)
        \<and> grade_answer L Y (Some given) ground_truth =
            (if given = [] then Ok False
             else if normalize_answer (Some ground_truth) = normalize_answer (Some given)
             then Ok True
             else if gt = gv then Ok True
             else grade_tuples Y gt gv)"
      using gt gv g by blast
  qed
qed


lemma py_float_three: "py_float ''3.0'' = Ok (Finite 3)"
  by code_simp

lemma near_integer_three: "near_integer (Finite 3) = Ok True"
  by code_simp

lemma py_float_3: "py_float ''3'' = Ok (Finite 3)"
  by code_simp

lemma strip_commas_3: "strip_properly_formatted_commas ''3'' = Some ''3''"
  by (rule strip_commas_fixpoint) (simp add: comma_match_def)

lemma str_int_3: "str_int 3 = ''3''"
  by code_simp

lemma normalize_expr_three: "normalize_expr L (Some ''3.0'') = Ok (Some ''3'')"
  by (simp add: ext_eval py_float_three near_integer_three py_float_3 strip_commas_3
      str_int_3 py_round_def py_trunc_def round_half_even_def is_digit_def)

theorem normalize_expr_returns_string_witness:
  "normalize_expr raising_latex (Some ''3.0'') = Ok (Some ''3'')
   \<and> normalize_expr raising_latex (Some ''1/2'') \<noteq> Ok None
   \<and> grade_answer raising_latex hanging_sympy (Some ''2/4'') ''1/2''
       = grade_tuples hanging_sympy ''1/2'' ''2/4''"
proof -
  from normalize_expr_returns_string
    [of raising_latex "''3.0''" "''1/2''" "''2/4''" hanging_sympy]
  obtain gt gv where
    a: "normalize_expr raising_latex (Some ''1/2'') \<noteq> Ok None"
    and gt: "normalize_expr raising_latex (Some ''1/2'') = Ok (Some gt)"
    and gv: "normalize_expr raising_latex (Some ''2/4'') = Ok (Some gv)"
    and g: "grade_answer raising_latex hanging_sympy (Some ''2/4'') ''1/2'' =
            (if ''2/4'' = [] then Ok False
             else if normalize_answer (Some ''1/2'') = normalize_answer (Some ''2/4'')
             then Ok True
             else if gt = gv then Ok True
             else grade_tuples hanging_sympy gt gv)"
    by blast
  from gt have gt': "gt = ''1/2''" by (simp add: normalize_expr_1_2)
  from gv have gv': "gv = ''2/4''" by (simp add: normalize_expr_2_4)
  from g have "grade_answer raising_latex hanging_sympy (Some ''2/4'') ''1/2''
       = grade_tuples hanging_sympy ''1/2'' ''2/4''"
    by (simp add: gt' gv' normalize_answer_1_2 normalize_answer_2_4)
  with a normalize_expr_three [of raising_latex] show ?thesis by simp
qed

end
